theory Spec2Isabelle
  imports Main
begin

section \<open>Python values and the objects of the wrapped library\<close>

text \<open>
  The components of \<^verbatim>\<open>telegram_core_components.py\<close> are embedded as functions on an
  explicit world. Port values are dynamically typed, so they are values of \<open>pyval\<close>;
  every attribute access or method call on a value of the wrong kind is a branch that
  raises, as in Python.

  The Update, Chat, User and Message objects belong to the wrapped library. Only the
  attributes the source reads are kept, each optional where the library declares it
  optional.
\<close>

datatype chat = Chat (chat_ident: int)

datatype user = User (user_ident: int) (user_first_name: "string option")

datatype message = Message (message_id: int) (msg_text: "string option")

record update =
  effective_chat :: "chat option"
  effective_user :: "user option"
  effective_message :: "message option"
  message :: "message option"

text \<open>
  An Application and an OnEvent listener are mutable objects: they are references
  (\<open>PApp r\<close>, \<open>PListener l\<close>) into the stores of the world, so that two ports holding the
  same reference hold the same object. A dict is an association list in insertion order
  with string keys.
\<close>

datatype pyval =
    PNone
  | PBool bool
  | PInt int
  | PStr string
  | PList "pyval list"
  | PDict "(string \<times> pyval) list"
  | PUpdate update
  | PApp nat
  | PListener nat

datatype error =
    ValueError string
  | AttributeError
  | TypeError
  | TelegramError

text \<open>Python's truth value of an object, as tested by \<^verbatim>\<open>if x\<close>, \<^verbatim>\<open>not x\<close>, \<^verbatim>\<open>and\<close>, \<^verbatim>\<open>or\<close>.\<close>

fun truthy :: "pyval \<Rightarrow> bool" where
  "truthy PNone = False"
| "truthy (PBool b) = b"
| "truthy (PInt i) = (i \<noteq> 0)"
| "truthy (PStr s) = (s \<noteq> [])"
| "truthy (PList xs) = (xs \<noteq> [])"
| "truthy (PDict kvs) = (kvs \<noteq> [])"
| "truthy (PUpdate u) = True"
| "truthy (PApp r) = True"
| "truthy (PListener l) = True"

text \<open>\<^verbatim>\<open>d.get(k, default)\<close>: only a dict has the method.\<close>

fun py_get :: "pyval \<Rightarrow> string \<Rightarrow> pyval \<Rightarrow> error + pyval" where
  "py_get (PDict kvs) k d = Inr (case map_of kvs k of None \<Rightarrow> d | Some v \<Rightarrow> v)"
| "py_get _ k d = Inl AttributeError"

text \<open>
  What a \<^verbatim>\<open>for\<close> loop iterates over: a dict yields its keys, a str its characters;
  the other values cannot be iterated.
\<close>

fun py_iter :: "pyval \<Rightarrow> error + pyval list" where
  "py_iter (PList xs) = Inr xs"
| "py_iter (PDict kvs) = Inr (map (\<lambda>kv. PStr (fst kv)) kvs)"
| "py_iter (PStr s) = Inr (map (\<lambda>c. PStr [c]) s)"
| "py_iter _ = Inl TypeError"

text \<open>
  \<^verbatim>\<open>str.strip()\<close> removes the leading and trailing characters for which
  \<^verbatim>\<open>str.isspace\<close> holds. A \<open>char\<close> stands for the code point of its number, so a str of
  the model is a str of code points below 256. On that range \<^verbatim>\<open>str.isspace\<close> holds of
  exactly twelve code points: tab to carriage return (U+0009 to U+000D), the four
  separators U+001C to U+001F, the space U+0020, the next-line control U+0085 and the
  no-break space U+00A0.
\<close>

definition is_space :: "char \<Rightarrow> bool" where
  "is_space c \<longleftrightarrow> c \<in> set [CHR 0x09, CHR 0x0A, CHR 0x0B, CHR 0x0C, CHR 0x0D,
                             CHR 0x1C, CHR 0x1D, CHR 0x1E, CHR 0x1F, CHR 0x20,
                             CHR 0x85, CHR 0xA0]"

definition py_strip :: "string \<Rightarrow> string" where
  "py_strip s = rev (dropWhile is_space (rev (dropWhile is_space s)))"

text \<open>\<^verbatim>\<open>v.strip()\<close> on a port value: None (and every value that is not a str) has no such method.\<close>

fun strip_value :: "pyval \<Rightarrow> error + string" where
  "strip_value (PStr s) = Inr (py_strip s)"
| "strip_value _ = Inl AttributeError"

text \<open>\<^verbatim>\<open>sep.join(xs)\<close> on a list of str.\<close>

fun str_join :: "string \<Rightarrow> string list \<Rightarrow> string" where
  "str_join sep [] = []"
| "str_join sep [x] = x"
| "str_join sep (x # y # ys) = x @ sep @ str_join sep (y # ys)"

section \<open>The world: library objects, host context, event loop\<close>

datatype parse_mode = HTML | MARKDOWN | MARKDOWN_V2

record send_args =
  sm_chat_id :: int
  sm_text :: pyval
  sm_parse_mode :: "parse_mode option"
  sm_reply_to_message_id :: "int option"

text \<open>
  The callbacks the components install are closures: \<open>command_cb cmd evt\<close> has captured
  the stripped command and event names.
\<close>

datatype callback = echo_cb | command_cb string string

datatype msg_filter = TEXT_and_not_COMMAND

datatype handler =
    MessageHandler msg_filter callback
  | CommandHandler string callback

text \<open>
  Calls that leave the repository are recorded in a trace, in the order they are made:
  the calls into the wrapped library and the host's run of a listener's subgraph, which
  carries the value the listener's payload port holds at that moment.
\<close>

datatype event =
    BuildApplication pyval nat
  | AddHandler nat handler
  | RunPolling nat
  | SendMessage send_args
  | SubGraphDo nat pyval

text \<open>A coroutine handed to the event loop: \<^verbatim>\<open>_send_reply\<close> with the variables it has captured.\<close>

datatype task = send_reply pyval int pyval int

record world =
  app_handlers :: "nat \<Rightarrow> handler list"
  next_app :: nat
  ctx :: pyval
  payload_port :: "nat \<Rightarrow> pyval"
  trace :: "event list"
  tasks :: "task list"
  stdout :: "string list"
  send_fails :: "send_args \<Rightarrow> bool"

text \<open>
  \<open>app_handlers\<close> is the store of Application objects, \<open>ctx\<close> the content of the host
  context, \<open>payload_port\<close> the store of the listeners' payload ports, \<open>tasks\<close> the
  coroutines scheduled on the event loop and not yet run, \<open>stdout\<close> what \<^verbatim>\<open>print\<close> wrote.
  \<open>send_fails\<close> is the behaviour of the transport: the sends on which the library raises.
  The other calls that leave the repository are taken to return.
\<close>

type_synonym 'a result = "(error + 'a) \<times> world"

definition log_event :: "event \<Rightarrow> world \<Rightarrow> world" where
  "log_event e w = w\<lparr>trace := trace w @ [e]\<rparr>"

definition print :: "string \<Rightarrow> world \<Rightarrow> world" where
  "print s w = w\<lparr>stdout := stdout w @ [s]\<rparr>"

text \<open>\<^verbatim>\<open>bot.send_message(...)\<close>, awaited: the call is made, and raises where the transport fails.\<close>

definition send_message :: "send_args \<Rightarrow> world \<Rightarrow> unit result" where
  "send_message a w =
     (if send_fails w a then (Inl TelegramError, log_event (SendMessage a) w)
      else (Inr (), log_event (SendMessage a) w))"

text \<open>\<^verbatim>\<open>app.add_handler(h)\<close>: only an Application has the method.\<close>

fun add_handler :: "pyval \<Rightarrow> handler \<Rightarrow> world \<Rightarrow> unit result" where
  "add_handler (PApp r) h w =
     (Inr (), log_event (AddHandler r h)
                (w\<lparr>app_handlers := (app_handlers w)(r := app_handlers w r @ [h])\<rparr>))"
| "add_handler _ h w = (Inl AttributeError, w)"

section \<open>TelegramInitApp\<close>

definition TelegramInitApp_execute :: "pyval \<Rightarrow> world \<Rightarrow> pyval result" where
  "TelegramInitApp_execute telegram_token w =
     (if \<not> truthy telegram_token then (Inl (ValueError ''No Telegram token provided!''), w)
      else let r = next_app w in
        (Inr (PApp r),
         log_event (BuildApplication telegram_token r)
           (w\<lparr>app_handlers := (app_handlers w)(r := []), next_app := Suc r\<rparr>)))"

section \<open>TelegramAddEchoHandler\<close>

definition echo :: "update \<Rightarrow> world \<Rightarrow> unit result" where
  "echo upd w =
     (case message upd of
        None \<Rightarrow> (Inr (), w)
      | Some m \<Rightarrow>
          (case msg_text m of
             None \<Rightarrow> (Inr (), w)
           | Some t \<Rightarrow>
               if t = [] then (Inr (), w)
               else (case effective_chat upd of
                       None \<Rightarrow> (Inl AttributeError, w)
                     | Some c \<Rightarrow>
                         send_message \<lparr>sm_chat_id = chat_ident c, sm_text = PStr t,
                                       sm_parse_mode = None, sm_reply_to_message_id = None\<rparr> w)))"

definition TelegramAddEchoHandler_execute :: "pyval \<Rightarrow> world \<Rightarrow> pyval result" where
  "TelegramAddEchoHandler_execute application w =
     (let app = application;
          echo_handler = MessageHandler TEXT_and_not_COMMAND echo_cb
      in case add_handler app echo_handler w of
           (Inl e, w') \<Rightarrow> (Inl e, w')
         | (Inr _, w') \<Rightarrow> (Inr app, w'))"

section \<open>TelegramRunApp\<close>

fun run_polling :: "pyval \<Rightarrow> world \<Rightarrow> unit result" where
  "run_polling (PApp r) w = (Inr (), log_event (RunPolling r) w)"
| "run_polling _ w = (Inl AttributeError, w)"

definition TelegramRunApp_execute :: "pyval \<Rightarrow> world \<Rightarrow> unit result" where
  "TelegramRunApp_execute application w =
     (let app = application in
      if \<not> truthy app then (Inl (ValueError ''No Telegram Application provided!''), w)
      else run_polling app w)"

section \<open>TelegramAddCommandEvent\<close>

text \<open>
  The loop over the listeners: the payload is assigned to the listener's payload port,
  then the host runs the listener's subgraph. An element that is not a listener has no
  payload port.
\<close>

fun fire_listeners :: "pyval \<Rightarrow> pyval list \<Rightarrow> world \<Rightarrow> unit result" where
  "fire_listeners payload [] w = (Inr (), w)"
| "fire_listeners payload (PListener l # ls) w =
     (let w1 = w\<lparr>payload_port := (payload_port w)(l := payload)\<rparr>;
          w2 = log_event (SubGraphDo l (payload_port w1 l)) w1
      in fire_listeners payload ls w2)"
| "fire_listeners payload (_ # ls) w = (Inl AttributeError, w)"

text \<open>
  \<open>command_callback cmd evt\<close> is the closure over the stripped names; \<open>args\<close> is
  \<^verbatim>\<open>context.args\<close>, which the library sets to the list of the command's arguments
  (and leaves None outside a command).
\<close>

definition command_callback ::
  "string \<Rightarrow> string \<Rightarrow> update \<Rightarrow> string list option \<Rightarrow> world \<Rightarrow> unit result" where
  "command_callback cmd evt upd args w =
     (let message_text = (case args of
                            None \<Rightarrow> []
                          | Some as \<Rightarrow> if as = [] then [] else str_join '' '' as)
      in case effective_chat upd of
           None \<Rightarrow> (Inl AttributeError, w)
         | Some c \<Rightarrow>
             (let chat_id = chat_ident c;
                  user_id = (case effective_user upd of
                               None \<Rightarrow> PNone
                             | Some usr \<Rightarrow> PInt (user_ident usr));
                  payload = PDict [(''command_name'', PStr cmd),
                                   (''message_text'', PStr message_text),
                                   (''chat_id'', PInt chat_id),
                                   (''user_id'', user_id),
                                   (''update'', PUpdate upd)]
              in case py_get (ctx w) ''events'' (PDict []) of
                   Inl e \<Rightarrow> (Inl e, w)
                 | Inr events \<Rightarrow>
                     (case py_get events evt (PList []) of
                        Inl e \<Rightarrow> (Inl e, w)
                      | Inr listeners \<Rightarrow>
                          (case py_iter listeners of
                             Inl e \<Rightarrow> (Inl e, w)
                           | Inr ls \<Rightarrow> fire_listeners payload ls w))))"

definition TelegramAddCommandEvent_execute ::
  "pyval \<Rightarrow> pyval \<Rightarrow> pyval \<Rightarrow> world \<Rightarrow> pyval result" where
  "TelegramAddCommandEvent_execute application command_name event_name w =
     (let app = application in
      case strip_value command_name of
        Inl e \<Rightarrow> (Inl e, w)
      | Inr cmd \<Rightarrow>
          (case strip_value event_name of
             Inl e \<Rightarrow> (Inl e, w)
           | Inr evt \<Rightarrow>
               if \<not> (truthy app \<and> cmd \<noteq> [] \<and> evt \<noteq> [])
               then (Inl (ValueError ''Application, command_name, and event_name are required.''), w)
               else (let handler = CommandHandler cmd (command_cb cmd evt)
                     in case add_handler app handler w of
                          (Inl e, w') \<Rightarrow> (Inl e, w')
                        | (Inr _, w') \<Rightarrow> (Inr app, w'))))"

text \<open>What the library does when a handler's callback is due: it runs the closure.\<close>

fun run_callback :: "callback \<Rightarrow> update \<Rightarrow> string list option \<Rightarrow> world \<Rightarrow> unit result" where
  "run_callback echo_cb upd args w = echo upd w"
| "run_callback (command_cb cmd evt) upd args w = command_callback cmd evt upd args w"

section \<open>TelegramParsePayload\<close>

record parse_out =
  chat_id :: pyval
  user_id :: pyval
  message_text :: pyval
  update_obj :: pyval
  command_name :: pyval
  first_name :: pyval

text \<open>
  \<^verbatim>\<open>update.effective_user.first_name or ""\<close> under \<^verbatim>\<open>if update and update.effective_user\<close>:
  a true value that is not an Update has no attribute \<^verbatim>\<open>effective_user\<close>.
\<close>

definition derive_first_name :: "pyval \<Rightarrow> error + string" where
  "derive_first_name upd =
     (if \<not> truthy upd then Inr []
      else case upd of
             PUpdate u \<Rightarrow>
               (case effective_user u of
                  None \<Rightarrow> Inr []
                | Some usr \<Rightarrow>
                    (case user_first_name usr of
                       None \<Rightarrow> Inr []
                     | Some n \<Rightarrow> if n \<noteq> [] then Inr n else Inr []))
           | _ \<Rightarrow> Inl AttributeError)"

definition TelegramParsePayload_execute :: "pyval \<Rightarrow> world \<Rightarrow> parse_out result" where
  "TelegramParsePayload_execute event_payload w =
     (let payload = (if truthy event_payload then event_payload else PDict []) in
      case py_get payload ''chat_id'' PNone of
        Inl e \<Rightarrow> (Inl e, w)
      | Inr v_chat \<Rightarrow>
     (case py_get payload ''user_id'' PNone of
        Inl e \<Rightarrow> (Inl e, w)
      | Inr v_user \<Rightarrow>
     (case py_get payload ''message_text'' PNone of
        Inl e \<Rightarrow> (Inl e, w)
      | Inr v_text \<Rightarrow>
     (case py_get payload ''update'' PNone of
        Inl e \<Rightarrow> (Inl e, w)
      | Inr v_upd \<Rightarrow>
     (case py_get payload ''command_name'' PNone of
        Inl e \<Rightarrow> (Inl e, w)
      | Inr v_cmd \<Rightarrow>
     (case py_get payload ''update'' PNone of
        Inl e \<Rightarrow> (Inl e, w)
      | Inr upd \<Rightarrow>
     (case derive_first_name upd of
        Inl e \<Rightarrow> (Inl e, w)
      | Inr fn \<Rightarrow>
          (Inr \<lparr>chat_id = v_chat, user_id = v_user, message_text = v_text,
                update_obj = v_upd, command_name = v_cmd, first_name = PStr fn\<rparr>, w))))))))"

section \<open>TelegramReplyToMessageEvent\<close>

text \<open>
  \<^verbatim>\<open>loop.create_task(_send_reply())\<close> appends the coroutine to the tasks of the event loop;
  nothing of its body runs in \<open>execute\<close>. \<open>run_task\<close> is the body, run by the loop later:
  \<^verbatim>\<open>app.bot\<close> exists on an Application only. The loop that \<^verbatim>\<open>asyncio.get_event_loop()\<close>
  returns is the one whose tasks the world holds; that there is such a loop is assumed.
\<close>

definition create_task :: "task \<Rightarrow> world \<Rightarrow> world" where
  "create_task t w = w\<lparr>tasks := tasks w @ [t]\<rparr>"

fun run_task :: "task \<Rightarrow> world \<Rightarrow> unit result" where
  "run_task (send_reply (PApp r) cid reply_text mid) w =
     send_message \<lparr>sm_chat_id = cid, sm_text = reply_text,
                   sm_parse_mode = Some HTML, sm_reply_to_message_id = Some mid\<rparr> w"
| "run_task (send_reply _ cid reply_text mid) w = (Inl AttributeError, w)"

definition TelegramReplyToMessageEvent_execute ::
  "pyval \<Rightarrow> pyval \<Rightarrow> pyval \<Rightarrow> world \<Rightarrow> unit result" where
  "TelegramReplyToMessageEvent_execute application event_payload reply_text w =
     (let app = application; payload = event_payload in
      if \<not> truthy app
      then (Inr (), print ''[TelegramReplyToMessage] No Telegram Application found!'' w)
      else if \<not> truthy payload
      then (Inr (), print ''[TelegramReplyToMessage] No event_payload provided, can't reply.'' w)
      else case py_get payload ''update'' PNone of
             Inl e \<Rightarrow> (Inl e, w)
           | Inr upd \<Rightarrow>
               if \<not> truthy upd
               then (Inr (), print ''[TelegramReplyToMessage] No 'update' in event_payload, cannot reply.'' w)
               else (case upd of
                       PUpdate u \<Rightarrow>
                         (case effective_chat u of
                            None \<Rightarrow> (Inl AttributeError, w)
                          | Some c \<Rightarrow>
                              (case effective_message u of
                                 None \<Rightarrow> (Inl AttributeError, w)
                               | Some m \<Rightarrow>
                                   (Inr (), create_task (send_reply app (chat_ident c) reply_text
                                                           (message_id m)) w)))
                     | _ \<Rightarrow> (Inl AttributeError, w)))"

text \<open>A world with nothing in it, for evaluating the components on concrete inputs.\<close>

definition world0 :: world where
  "world0 = \<lparr>app_handlers = (\<lambda>_. []), next_app = 0, ctx = PDict [],
             payload_port = (\<lambda>_. PNone), trace = [], tasks = [], stdout = [],
             send_fails = (\<lambda>_. False)\<rparr>"

definition upd0 :: update where
  "upd0 = \<lparr>effective_chat = Some (Chat 42), effective_user = Some (User 7 (Some ''Ann'')),
            effective_message = Some (Message 99 (Some ''/start a b'')),
            message = Some (Message 99 (Some ''/start a b''))\<rparr>"

definition world1 :: world where
  "world1 = world0\<lparr>ctx := PDict [(''events'', PDict [(''ev'', PList [PListener 1, PListener 2])])]\<rparr>"

definition world_down :: world where
  "world_down = world0\<lparr>send_fails := (\<lambda>a. True)\<rparr>"

definition upd_text :: update where
  "upd_text = \<lparr>effective_chat = Some (Chat 42), effective_user = Some (User 7 (Some ''Ann'')),
               effective_message = Some (Message 5 (Some ''hello'')),
               message = Some (Message 5 (Some ''hello''))\<rparr>"

definition upd_photo :: update where
  "upd_photo = \<lparr>effective_chat = Some (Chat 42), effective_user = Some (User 7 (Some ''Ann'')),
                effective_message = Some (Message 6 None),
                message = Some (Message 6 None)\<rparr>"

section \<open>Properties of the string helpers\<close>

lemma dropWhile_all_iff: "(\<forall>x \<in> set (dropWhile P xs). P x) \<longleftrightarrow> (\<forall>x \<in> set xs. P x)"
  by (induction xs) auto

lemma rev_dropWhile_split:
  "xs = rev (dropWhile P (rev xs)) @ rev (takeWhile P (rev xs))"
  by (metis rev_append rev_rev_ident takeWhile_dropWhile_id)

lemma py_strip_blank_iff: "py_strip s = [] \<longleftrightarrow> (\<forall>c \<in> set s. is_space c)"
proof -
  have "py_strip s = [] \<longleftrightarrow> (\<forall>x \<in> set (rev (dropWhile is_space s)). is_space x)"
    by (simp add: py_strip_def dropWhile_eq_Nil_conv)
  also have "\<dots> \<longleftrightarrow> (\<forall>x \<in> set (dropWhile is_space s). is_space x)"
    by simp
  also have "\<dots> \<longleftrightarrow> (\<forall>c \<in> set s. is_space c)"
    by (rule dropWhile_all_iff)
  finally show ?thesis .
qed

lemma py_strip_decomp:
  "\<exists>pre post. s = pre @ py_strip s @ post \<and> (\<forall>c \<in> set pre. is_space c) \<and> (\<forall>c \<in> set post. is_space c)"
proof -
  let ?t = "dropWhile is_space s"
  have a: "s = takeWhile is_space s @ ?t" by simp
  have c: "?t = py_strip s @ rev (takeWhile is_space (rev ?t))"
    unfolding py_strip_def by (rule rev_dropWhile_split)
  have "s = takeWhile is_space s @ py_strip s @ rev (takeWhile is_space (rev ?t))"
    using a c by simp
  moreover have "\<forall>c \<in> set (takeWhile is_space s). is_space c"
    by (auto dest: set_takeWhileD)
  moreover have "\<forall>c \<in> set (rev (takeWhile is_space (rev ?t))). is_space c"
    by (auto dest: set_takeWhileD)
  ultimately show ?thesis by blast
qed

lemma py_strip_ends:
  assumes ne: "py_strip s \<noteq> []"
  shows "\<not> is_space (hd (py_strip s)) \<and> \<not> is_space (last (py_strip s))"
proof -
  let ?t = "dropWhile is_space s"
  let ?u = "dropWhile is_space (rev ?t)"
  have u: "?u \<noteq> []" using ne by (simp add: py_strip_def)
  have l: "\<not> is_space (hd ?u)" using u by (rule hd_dropWhile)
  have t: "?t \<noteq> []"
  proof
    assume "?t = []"
    then have "?u = []" by (simp only: rev.simps dropWhile.simps)
    with u show False by simp
  qed
  have h: "\<not> is_space (hd ?t)" using t by (rule hd_dropWhile)
  have "last (py_strip s) = hd ?u" using u by (simp add: py_strip_def last_rev)
  moreover have "hd (py_strip s) = hd ?t"
  proof -
    have "?t = rev ?u @ rev (takeWhile is_space (rev ?t))"
      by (rule rev_dropWhile_split)
    then have "hd ?t = hd (rev ?u)" using u by (metis hd_append2 rev_is_Nil_conv)
    then show ?thesis by (simp add: py_strip_def)
  qed
  ultimately show ?thesis using l h by simp
qed

lemma dropWhile_hd_id: "xs \<noteq> [] \<Longrightarrow> \<not> P (hd xs) \<Longrightarrow> dropWhile P xs = xs"
  by (cases xs) auto

lemma py_strip_idem: "py_strip (py_strip s) = py_strip s"
proof (cases "py_strip s = []")
  case True
  then have "py_strip (py_strip s) = py_strip []" by simp
  also have "\<dots> = []" by (simp add: py_strip_def)
  finally show ?thesis using True by simp
next
  case False
  from py_strip_ends [OF False] have a: "\<not> is_space (hd (py_strip s))" and b: "\<not> is_space (last (py_strip s))" by auto
  have 1: "dropWhile is_space (py_strip s) = py_strip s"
    using False a by (rule dropWhile_hd_id)
  have 2: "dropWhile is_space (rev (py_strip s)) = rev (py_strip s)"
    using False b by (intro dropWhile_hd_id) (auto simp: hd_rev)
  have "py_strip (py_strip s) = rev (dropWhile is_space (rev (dropWhile is_space (py_strip s))))"
    by (rule py_strip_def)
  also have "\<dots> = py_strip s" by (simp only: 1 2 rev_rev_ident)
  finally show ?thesis .
qed

section \<open>The loop over the listeners\<close>

lemma str_join_Cons: "str_join sep (a # as) = a @ concat (map (\<lambda>x. sep @ x) as)"
  by (induction as arbitrary: a) auto

lemma fire_listeners_keeps_port:
  "payload_port w l = p \<Longrightarrow> payload_port (snd (fire_listeners p xs w)) l = p"
  by (induction p xs w rule: fire_listeners.induct) (auto simp: log_event_def Let_def)

lemma fire_listeners_events:
  "\<exists>ls. trace (snd (fire_listeners p xs w)) = trace w @ map (\<lambda>l. SubGraphDo l p) ls
        \<and> (\<forall>l \<in> set ls. payload_port (snd (fire_listeners p xs w)) l = p)"
proof (induction xs arbitrary: w)
  case Nil
  have "trace (snd (fire_listeners p [] w)) = trace w @ map (\<lambda>l. SubGraphDo l p) []"
    by simp
  then show ?case by fastforce
next
  case (Cons x xs)
  show ?case
  proof (cases x)
    case (PListener l)
    define w1 where "w1 = w\<lparr>payload_port := (payload_port w)(l := p)\<rparr>"
    define w2 where "w2 = log_event (SubGraphDo l (payload_port w1 l)) w1"
    have step: "fire_listeners p (x # xs) w = fire_listeners p xs w2"
      by (simp add: PListener w1_def w2_def Let_def)
    from Cons.IH [of w2] obtain ls' where
      tr: "trace (snd (fire_listeners p xs w2)) = trace w2 @ map (\<lambda>l. SubGraphDo l p) ls'"
      and pp: "\<forall>l \<in> set ls'. payload_port (snd (fire_listeners p xs w2)) l = p"
      by blast
    have t2: "trace w2 = trace w @ [SubGraphDo l p]"
      by (simp add: w1_def w2_def log_event_def)
    have "payload_port w2 l = p"
      by (simp add: w1_def w2_def log_event_def)
    then have pl: "payload_port (snd (fire_listeners p xs w2)) l = p"
      by (rule fire_listeners_keeps_port)
    have "trace (snd (fire_listeners p (x # xs) w)) = trace w @ map (\<lambda>l. SubGraphDo l p) (l # ls')"
      using tr t2 step by simp
    moreover have "\<forall>k \<in> set (l # ls'). payload_port (snd (fire_listeners p (x # xs) w)) k = p"
      using pp pl step by simp
    ultimately show ?thesis by blast
  qed (rule exI [of _ "[]"], simp)+
qed

lemma fire_listeners_all:
  "fire_listeners p (map PListener ls) w =
     (Inr (), w\<lparr>payload_port := (\<lambda>l. if l \<in> set ls then p else payload_port w l),
                trace := trace w @ map (\<lambda>l. SubGraphDo l p) ls\<rparr>)"
proof (induction ls arbitrary: w)
  case Nil
  then show ?case by simp
next
  case (Cons a ls)
  have "(\<lambda>l. if l \<in> set ls then p else if l = a then p else payload_port w l)
        = (\<lambda>l. if l = a \<or> l \<in> set ls then p else payload_port w l)"
    by auto
  then show ?case
    by (simp add: Cons.IH log_event_def Let_def fun_upd_def cong: if_cong)
qed

section \<open>Absent required inputs\<close>

text \<open>
  C1, as stated, at TelegramReplyToMessageEvent: with no application on the port,
  \<open>execute\<close> does not raise. It prints a line and returns.
\<close>

theorem C1_reply_counterexample:
  "fst (TelegramReplyToMessageEvent_execute PNone (PDict [(''update'', PUpdate upd0)]) (PStr ''hi'') world0) = Inr ()"
  by (simp add: TelegramReplyToMessageEvent_execute_def)

text \<open>
  C1, amended. An absent required input is a false port value (None, an empty str) and,
  for the two names, None or a str that is blank once stripped.
  TelegramInitApp without a token and TelegramRunApp without an application raise
  ValueError; TelegramAddCommandEvent without an application, a command name or an event
  name raises; in each case the world is left as it was, so nothing was called.
  TelegramReplyToMessageEvent without an application or a payload does not raise: it
  prints one line and returns, with the trace of calls and the scheduled tasks unchanged.
\<close>

theorem C1_absent_inputs:
  "(\<not> truthy token \<longrightarrow>
      TelegramInitApp_execute token w = (Inl (ValueError ''No Telegram token provided!''), w))
   \<and> (\<not> truthy app \<longrightarrow>
      TelegramRunApp_execute app w = (Inl (ValueError ''No Telegram Application provided!''), w))
   \<and> (\<not> truthy app \<or> cn = PNone \<or> (\<exists>s. cn = PStr s \<and> py_strip s = [])
         \<or> en = PNone \<or> (\<exists>s. en = PStr s \<and> py_strip s = []) \<longrightarrow>
      (\<exists>e. TelegramAddCommandEvent_execute app cn en w = (Inl e, w)))
   \<and> (\<not> truthy app \<or> \<not> truthy payload \<longrightarrow>
      (\<exists>line. TelegramReplyToMessageEvent_execute app payload txt w = (Inr (), print line w))
      \<and> trace (snd (TelegramReplyToMessageEvent_execute app payload txt w)) = trace w
      \<and> tasks (snd (TelegramReplyToMessageEvent_execute app payload txt w)) = tasks w)"
proof (intro conjI impI)
  assume "\<not> truthy token"
  then show "TelegramInitApp_execute token w = (Inl (ValueError ''No Telegram token provided!''), w)"
    by (simp add: TelegramInitApp_execute_def)
next
  assume "\<not> truthy app"
  then show "TelegramRunApp_execute app w = (Inl (ValueError ''No Telegram Application provided!''), w)"
    by (simp add: TelegramRunApp_execute_def)
next
  assume "\<not> truthy app \<or> cn = PNone \<or> (\<exists>s. cn = PStr s \<and> py_strip s = [])
         \<or> en = PNone \<or> (\<exists>s. en = PStr s \<and> py_strip s = [])"
  then show "\<exists>e. TelegramAddCommandEvent_execute app cn en w = (Inl e, w)"
    by (auto simp: TelegramAddCommandEvent_execute_def split: sum.splits)
next
  assume a: "\<not> truthy app \<or> \<not> truthy payload"
  then show "\<exists>line. TelegramReplyToMessageEvent_execute app payload txt w = (Inr (), print line w)"
    by (auto simp: TelegramReplyToMessageEvent_execute_def)
  from a show "trace (snd (TelegramReplyToMessageEvent_execute app payload txt w)) = trace w"
    by (auto simp: TelegramReplyToMessageEvent_execute_def print_def)
  from a show "tasks (snd (TelegramReplyToMessageEvent_execute app payload txt w)) = tasks w"
    by (auto simp: TelegramReplyToMessageEvent_execute_def print_def)
qed

theorem C1_absent_inputs_witness:
  "TelegramInitApp_execute PNone world0 = (Inl (ValueError ''No Telegram token provided!''), world0)
   \<and> TelegramRunApp_execute PNone world0 = (Inl (ValueError ''No Telegram Application provided!''), world0)
   \<and> (\<exists>e. TelegramAddCommandEvent_execute PNone (PStr ''start'') (PStr ''   '') world0 = (Inl e, world0))
   \<and> (\<exists>line. TelegramReplyToMessageEvent_execute PNone PNone (PStr ''hi'') world0 = (Inr (), print line world0))"
  using C1_absent_inputs [of PNone world0 PNone "PStr ''start''" "PStr ''   ''" PNone "PStr ''hi''"]
  by simp

section \<open>Stripping of the command and event names\<close>

text \<open>
  C10. With an Application and two str names, TelegramAddCommandEvent registers
  a CommandHandler under the stripped command whose callback has captured the stripped
  command and the stripped event name (the name its lookup uses), provided both are
  non-empty once stripped; a name of whitespace only (any of the characters of
  \<^verbatim>\<open>str.isspace\<close>, the no-break space included) is rejected with the ValueError of the
  presence check. A name that is None fails with AttributeError at the strip call,
  whatever the application is, before the presence check is reached. The stripped
  name is a fixed point of stripping and neither starts nor ends with whitespace.
\<close>

theorem C10_strip_before_check:
  "TelegramAddCommandEvent_execute (PApp r) (PStr cn) (PStr en) w =
     (if py_strip cn \<noteq> [] \<and> py_strip en \<noteq> []
      then (Inr (PApp r),
            log_event (AddHandler r (CommandHandler (py_strip cn)
                                       (command_cb (py_strip cn) (py_strip en))))
              (w\<lparr>app_handlers := (app_handlers w)
                    (r := app_handlers w r @
                          [CommandHandler (py_strip cn) (command_cb (py_strip cn) (py_strip en))])\<rparr>))
      else (Inl (ValueError ''Application, command_name, and event_name are required.''), w))
   \<and> (((\<forall>c \<in> set cn. is_space c) \<or> (\<forall>c \<in> set en. is_space c)) \<longrightarrow>
        TelegramAddCommandEvent_execute app (PStr cn) (PStr en) w =
          (Inl (ValueError ''Application, command_name, and event_name are required.''), w))
   \<and> TelegramAddCommandEvent_execute app PNone env w = (Inl AttributeError, w)
   \<and> TelegramAddCommandEvent_execute app (PStr cn) PNone w = (Inl AttributeError, w)
   \<and> py_strip (py_strip cn) = py_strip cn
   \<and> (py_strip cn \<noteq> [] \<longrightarrow> \<not> is_space (hd (py_strip cn)) \<and> \<not> is_space (last (py_strip cn)))"
proof (intro conjI impI)
  show "TelegramAddCommandEvent_execute (PApp r) (PStr cn) (PStr en) w =
     (if py_strip cn \<noteq> [] \<and> py_strip en \<noteq> []
      then (Inr (PApp r),
            log_event (AddHandler r (CommandHandler (py_strip cn)
                                       (command_cb (py_strip cn) (py_strip en))))
              (w\<lparr>app_handlers := (app_handlers w)
                    (r := app_handlers w r @
                          [CommandHandler (py_strip cn) (command_cb (py_strip cn) (py_strip en))])\<rparr>))
      else (Inl (ValueError ''Application, command_name, and event_name are required.''), w))"
    by (simp add: TelegramAddCommandEvent_execute_def)
next
  assume "(\<forall>c \<in> set cn. is_space c) \<or> (\<forall>c \<in> set en. is_space c)"
  then have "py_strip cn = [] \<or> py_strip en = []"
    by (simp add: py_strip_blank_iff)
  then show "TelegramAddCommandEvent_execute app (PStr cn) (PStr en) w =
          (Inl (ValueError ''Application, command_name, and event_name are required.''), w)"
    by (auto simp: TelegramAddCommandEvent_execute_def)
next
  show "TelegramAddCommandEvent_execute app PNone env w = (Inl AttributeError, w)"
    by (simp add: TelegramAddCommandEvent_execute_def)
  show "TelegramAddCommandEvent_execute app (PStr cn) PNone w = (Inl AttributeError, w)"
    by (simp add: TelegramAddCommandEvent_execute_def)
  show "py_strip (py_strip cn) = py_strip cn" by (rule py_strip_idem)
next
  assume "py_strip cn \<noteq> []"
  then show "\<not> is_space (hd (py_strip cn))" by (simp add: py_strip_ends)
next
  assume "py_strip cn \<noteq> []"
  then show "\<not> is_space (last (py_strip cn))" by (simp add: py_strip_ends)
qed

theorem C10_strip_before_check_witness:
  "TelegramAddCommandEvent_execute (PApp 0) (PStr ''  start '') (PStr '' ev'') world0 =
     (Inr (PApp 0),
      log_event (AddHandler 0 (CommandHandler ''start'' (command_cb ''start'' ''ev'')))
        (world0\<lparr>app_handlers := (app_handlers world0)
           (0 := app_handlers world0 0 @ [CommandHandler ''start'' (command_cb ''start'' ''ev'')])\<rparr>))
   \<and> TelegramAddCommandEvent_execute (PApp 0) (PStr ''   '') (PStr '' ev'') world0 =
          (Inl (ValueError ''Application, command_name, and event_name are required.''), world0)
   \<and> TelegramAddCommandEvent_execute (PApp 0) (PStr ''start'') (PStr [CHR 0xA0, CHR 0x85]) world0 =
          (Inl (ValueError ''Application, command_name, and event_name are required.''), world0)
   \<and> \<not> is_space (hd (py_strip ''  start ''))"
proof -
  have s1: "py_strip ''  start '' = ''start''" by (simp add: py_strip_def is_space_def)
  have s2: "py_strip '' ev'' = ''ev''" by (simp add: py_strip_def is_space_def)
  have s3: "py_strip ''   '' = []" by (simp add: py_strip_def is_space_def)
  have b: "\<forall>c \<in> set ''   ''. is_space c" by (simp add: is_space_def)
  have n: "\<forall>c \<in> set [CHR 0xA0, CHR 0x85]. is_space c" by (simp add: is_space_def)
  have 1: "TelegramAddCommandEvent_execute (PApp 0) (PStr ''  start '') (PStr '' ev'') world0 =
     (Inr (PApp 0),
      log_event (AddHandler 0 (CommandHandler ''start'' (command_cb ''start'' ''ev'')))
        (world0\<lparr>app_handlers := (app_handlers world0)
           (0 := app_handlers world0 0 @ [CommandHandler ''start'' (command_cb ''start'' ''ev'')])\<rparr>))
     \<and> \<not> is_space (hd (py_strip ''  start ''))"
    using C10_strip_before_check [of 0 "''  start ''" "'' ev''" world0 "PApp 0" PNone]
    by (simp add: s1 s2)
  have 2: "TelegramAddCommandEvent_execute (PApp 0) (PStr ''   '') (PStr '' ev'') world0 =
          (Inl (ValueError ''Application, command_name, and event_name are required.''), world0)"
    using C10_strip_before_check [of 0 "''   ''" "'' ev''" world0 "PApp 0" PNone] b
    by (simp add: s2 s3)
  have 3: "TelegramAddCommandEvent_execute (PApp 0) (PStr ''start'') (PStr [CHR 0xA0, CHR 0x85]) world0 =
          (Inl (ValueError ''Application, command_name, and event_name are required.''), world0)"
    using C10_strip_before_check [of 0 "''start''" "[CHR 0xA0, CHR 0x85]" world0 "PApp 0" PNone] n
    by blast
  from 1 2 3 show ?thesis by simp
qed

section \<open>The command callback\<close>

text \<open>
  C2. Let TelegramAddCommandEvent have registered a command on an Application, and let
  the host context hold a list of listeners under the stripped event name. Then the
  handler appended to the Application is the CommandHandler of the stripped command,
  and its callback, run on an Update that has an effective chat, returns normally
  having run every listener of the list, in order, each with one and the same dict on
  its payload port: the five entries \<^verbatim>\<open>command_name\<close> (the stripped command),
  \<^verbatim>\<open>message_text\<close>, \<^verbatim>\<open>chat_id\<close> (the id of the effective chat), \<^verbatim>\<open>user_id\<close> (the id of
  the effective user, None without one) and \<^verbatim>\<open>update\<close> (the Update itself), and no
  other. Nothing else in the world changes.
\<close>

theorem C2_event_payload:
  assumes reg: "TelegramAddCommandEvent_execute (PApp r) (PStr cn) (PStr en) w0 = (Inr out, w1)"
    and chat: "effective_chat upd = Some c"
    and cx: "ctx w = PDict kvs"
    and evs: "map_of kvs ''events'' = Some (PDict evs)"
    and lis: "map_of evs (py_strip en) = Some (PList (map PListener ls))"
  shows "(let payload = PDict [(''command_name'', PStr (py_strip cn)),
                               (''message_text'', PStr (case args of
                                                          None \<Rightarrow> []
                                                        | Some as \<Rightarrow> str_join '' '' as)),
                               (''chat_id'', PInt (chat_ident c)),
                               (''user_id'', case effective_user upd of
                                               None \<Rightarrow> PNone
                                             | Some usr \<Rightarrow> PInt (user_ident usr)),
                               (''update'', PUpdate upd)]
          in app_handlers w1 r = app_handlers w0 r @
               [CommandHandler (py_strip cn) (command_cb (py_strip cn) (py_strip en))]
           \<and> run_callback (command_cb (py_strip cn) (py_strip en)) upd args w =
               (Inr (), w\<lparr>payload_port := (\<lambda>l. if l \<in> set ls then payload else payload_port w l),
                          trace := trace w @ map (\<lambda>l. SubGraphDo l payload) ls\<rparr>))"
proof -
  let ?cb = "command_cb (py_strip cn) (py_strip en)"
  let ?mt = "case args of None \<Rightarrow> [] | Some as \<Rightarrow> str_join '' '' as"
  let ?P = "PDict [(''command_name'', PStr (py_strip cn)),
                   (''message_text'', PStr ?mt),
                   (''chat_id'', PInt (chat_ident c)),
                   (''user_id'', case effective_user upd of
                                   None \<Rightarrow> PNone
                                 | Some usr \<Rightarrow> PInt (user_ident usr)),
                   (''update'', PUpdate upd)]"
  from reg have ok: "py_strip cn \<noteq> [] \<and> py_strip en \<noteq> []"
    by (auto simp: TelegramAddCommandEvent_execute_def Let_def split: if_splits)
  with reg have h: "app_handlers w1 r = app_handlers w0 r @ [CommandHandler (py_strip cn) ?cb]"
    by (auto simp: TelegramAddCommandEvent_execute_def Let_def log_event_def)
  have mt: "(case args of None \<Rightarrow> [] | Some as \<Rightarrow> if as = [] then [] else str_join '' '' as) = ?mt"
    by (cases args) auto
  have "run_callback ?cb upd args w = fire_listeners ?P (map PListener ls) w"
    by (simp add: command_callback_def Let_def chat cx evs lis mt)
  then have run: "run_callback ?cb upd args w =
      (Inr (), w\<lparr>payload_port := (\<lambda>l. if l \<in> set ls then ?P else payload_port w l),
                 trace := trace w @ map (\<lambda>l. SubGraphDo l ?P) ls\<rparr>)"
    by (simp only: fire_listeners_all)
  from h run show ?thesis
    unfolding Let_def by (rule conjI)
qed

theorem C2_event_payload_witness:
  "fst (TelegramAddCommandEvent_execute (PApp 0) (PStr '' start '') (PStr ''ev '') world0) = Inr (PApp 0)
   \<and> app_handlers (snd (TelegramAddCommandEvent_execute (PApp 0) (PStr '' start '') (PStr ''ev '') world0)) 0
        = [CommandHandler ''start'' (command_cb ''start'' ''ev'')]
   \<and> run_callback (command_cb ''start'' ''ev'') upd0 (Some [''a'', ''b'']) world1 =
        (Inr (),
         world1\<lparr>payload_port :=
                   (\<lambda>l. if l \<in> set [1, 2]
                        then PDict [(''command_name'', PStr ''start''),
                                    (''message_text'', PStr ''a b''),
                                    (''chat_id'', PInt 42),
                                    (''user_id'', PInt 7),
                                    (''update'', PUpdate upd0)]
                        else payload_port world1 l),
                 trace := [SubGraphDo 1 (PDict [(''command_name'', PStr ''start''),
                                                (''message_text'', PStr ''a b''),
                                                (''chat_id'', PInt 42),
                                                (''user_id'', PInt 7),
                                                (''update'', PUpdate upd0)]),
                           SubGraphDo 2 (PDict [(''command_name'', PStr ''start''),
                                                (''message_text'', PStr ''a b''),
                                                (''chat_id'', PInt 42),
                                                (''user_id'', PInt 7),
                                                (''update'', PUpdate upd0)])]\<rparr>)"
proof -
  have s: "py_strip '' start '' = ''start''" "py_strip ''ev '' = ''ev''"
    by (simp_all add: py_strip_def is_space_def)
  have chat: "effective_chat upd0 = Some (Chat 42)" by (simp add: upd0_def)
  have usr: "effective_user upd0 = Some (User 7 (Some ''Ann''))" by (simp add: upd0_def)
  have f: "fst (TelegramAddCommandEvent_execute (PApp 0) (PStr '' start '') (PStr ''ev '') world0) = Inr (PApp 0)"
    by (simp add: TelegramAddCommandEvent_execute_def Let_def s)
  then have reg: "TelegramAddCommandEvent_execute (PApp 0) (PStr '' start '') (PStr ''ev '') world0 =
     (Inr (PApp 0), snd (TelegramAddCommandEvent_execute (PApp 0) (PStr '' start '') (PStr ''ev '') world0))"
    by (metis prod.collapse)
  have cx: "ctx world1 = PDict [(''events'', PDict [(''ev'', PList [PListener 1, PListener 2])])]"
    by (simp add: world1_def)
  have evs: "map_of [(''events'', PDict [(''ev'', PList [PListener 1, PListener 2])])] ''events''
               = Some (PDict [(''ev'', PList [PListener 1, PListener 2])])"
    by simp
  have lis: "map_of [(''ev'', PList [PListener 1, PListener 2])] (py_strip ''ev '')
               = Some (PList (map PListener [1, 2]))"
    by (simp add: s)
  have t0: "trace world1 = []" "app_handlers world0 0 = []" by (simp_all add: world1_def world0_def)
  from C2_event_payload [OF reg chat cx evs lis, of "Some [''a'', ''b'']"]
  show ?thesis using f by (simp add: s t0 usr Let_def)
qed

text \<open>
  C3. On an Update with an effective chat: when the host context holds, under
  \<^verbatim>\<open>events\<close> and then under the event name, a list of listeners, the callback returns
  normally after running every listener of the list, in list order, each with the
  payload already on its payload port (the run records the port's value); when the
  context has no \<^verbatim>\<open>events\<close> entry, or that entry has nothing under the event name,
  the callback returns normally and leaves the world as it was.
\<close>

theorem C3_listeners_in_order:
  assumes chat: "effective_chat upd = Some c"
  shows "(ctx w = PDict kvs \<and> map_of kvs ''events'' = Some (PDict evs)
            \<and> map_of evs evt = Some (PList (map PListener ls)) \<longrightarrow>
          (\<exists>P. command_callback cmd evt upd args w =
                 (Inr (), w\<lparr>payload_port := (\<lambda>l. if l \<in> set ls then P else payload_port w l),
                            trace := trace w @ map (\<lambda>l. SubGraphDo l P) ls\<rparr>)
               \<and> py_get P ''update'' PNone = Inr (PUpdate upd)))
       \<and> (ctx w = PDict kvs \<and> (map_of kvs ''events'' = None
              \<or> map_of kvs ''events'' = Some (PDict evs) \<and> map_of evs evt = None) \<longrightarrow>
          command_callback cmd evt upd args w = (Inr (), w))"
proof (intro conjI impI)
  assume a: "ctx w = PDict kvs \<and> map_of kvs ''events'' = Some (PDict evs)
            \<and> map_of evs evt = Some (PList (map PListener ls))"
  let ?P = "PDict [(''command_name'', PStr cmd),
                   (''message_text'', PStr (case args of None \<Rightarrow> []
                        | Some as \<Rightarrow> if as = [] then [] else str_join '' '' as)),
                   (''chat_id'', PInt (chat_ident c)),
                   (''user_id'', case effective_user upd of
                                        None \<Rightarrow> PNone
                                      | Some usr \<Rightarrow> PInt (user_ident usr)),
                   (''update'', PUpdate upd)]"
  have "command_callback cmd evt upd args w = fire_listeners ?P (map PListener ls) w"
    using a by (simp add: command_callback_def chat)
  then have "command_callback cmd evt upd args w =
                 (Inr (), w\<lparr>payload_port := (\<lambda>l. if l \<in> set ls then ?P else payload_port w l),
                            trace := trace w @ map (\<lambda>l. SubGraphDo l ?P) ls\<rparr>)"
    by (simp only: fire_listeners_all)
  moreover have "py_get ?P ''update'' PNone = Inr (PUpdate upd)" by simp
  ultimately show "\<exists>P. command_callback cmd evt upd args w =
                 (Inr (), w\<lparr>payload_port := (\<lambda>l. if l \<in> set ls then P else payload_port w l),
                            trace := trace w @ map (\<lambda>l. SubGraphDo l P) ls\<rparr>)
               \<and> py_get P ''update'' PNone = Inr (PUpdate upd)"
    by blast
next
  assume "ctx w = PDict kvs \<and> (map_of kvs ''events'' = None
              \<or> map_of kvs ''events'' = Some (PDict evs) \<and> map_of evs evt = None)"
  then show "command_callback cmd evt upd args w = (Inr (), w)"
    by (auto simp: command_callback_def chat)
qed

theorem C3_listeners_in_order_witness:
  "(\<exists>P. command_callback ''start'' ''ev'' upd0 (Some [''a'', ''b'']) world1 =
           (Inr (), world1\<lparr>payload_port := (\<lambda>l. if l \<in> set [1, 2] then P else payload_port world1 l),
                           trace := trace world1 @ map (\<lambda>l. SubGraphDo l P) [1, 2]\<rparr>)
        \<and> py_get P ''update'' PNone = Inr (PUpdate upd0))
   \<and> command_callback ''start'' ''ev'' upd0 (Some [''a'', ''b'']) world0 = (Inr (), world0)"
proof -
  have chat: "effective_chat upd0 = Some (Chat 42)" by (simp add: upd0_def)
  have c1: "ctx world1 = PDict [(''events'', PDict [(''ev'', PList [PListener 1, PListener 2])])]"
    by (simp add: world1_def)
  have c0: "ctx world0 = PDict []" by (simp add: world0_def)
  from C3_listeners_in_order [OF chat, of world1
        "[(''events'', PDict [(''ev'', PList [PListener 1, PListener 2])])]"
        "[(''ev'', PList [PListener 1, PListener 2])]" "''ev''" "[1, 2]" "''start''" "Some [''a'', ''b'']"]
  have a: "\<exists>P. command_callback ''start'' ''ev'' upd0 (Some [''a'', ''b'']) world1 =
           (Inr (), world1\<lparr>payload_port := (\<lambda>l. if l \<in> set [1, 2] then P else payload_port world1 l),
                           trace := trace world1 @ map (\<lambda>l. SubGraphDo l P) [1, 2]\<rparr>)
        \<and> py_get P ''update'' PNone = Inr (PUpdate upd0)"
    using c1 by simp
  from C3_listeners_in_order [OF chat, of world0 "[]" "[]" "''ev''" "[]" "''start''" "Some [''a'', ''b'']"]
  have b: "command_callback ''start'' ''ev'' upd0 (Some [''a'', ''b'']) world0 = (Inr (), world0)"
    using c0 by simp
  from a b show ?thesis by blast
qed

text \<open>
  C5. On an Update with an effective chat, every listener run by the callback gets a
  payload whose \<^verbatim>\<open>message_text\<close> is the arguments joined with \<^verbatim>\<open>" "\<close>: the empty str
  for no arguments, otherwise the first argument followed by each further one behind a
  single space.
\<close>

theorem C5_message_text:
  assumes chat: "effective_chat upd = Some c"
  shows "(\<forall>e \<in> set (drop (length (trace w)) (trace (snd (command_callback cmd evt upd args w)))).
            \<exists>l p. e = SubGraphDo l p \<and>
               py_get p ''message_text'' PNone =
                 Inr (PStr (case args of None \<Rightarrow> [] | Some as \<Rightarrow> str_join '' '' as)))
       \<and> str_join '' '' [] = []
       \<and> str_join '' '' (a # as) = a @ concat (map (\<lambda>x. '' '' @ x) as)"
proof (intro conjI)
  let ?mt = "case args of None \<Rightarrow> [] | Some as \<Rightarrow> str_join '' '' as"
  have mt: "(case args of None \<Rightarrow> [] | Some as \<Rightarrow> if as = [] then [] else str_join '' '' as) = ?mt"
    by (cases args) auto
  let ?P = "PDict [(''command_name'', PStr cmd),
                   (''message_text'', PStr ?mt),
                   (''chat_id'', PInt (chat_ident c)),
                   (''user_id'', case effective_user upd of
                                        None \<Rightarrow> PNone
                                      | Some usr \<Rightarrow> PInt (user_ident usr)),
                   (''update'', PUpdate upd)]"
  let ?w' = "snd (command_callback cmd evt upd args w)"
  have "\<exists>ls. trace ?w' = trace w @ map (\<lambda>l. SubGraphDo l ?P) ls"
  proof (cases "py_get (ctx w) ''events'' (PDict [])")
    case (Inl e)
    then have "trace ?w' = trace w @ map (\<lambda>l. SubGraphDo l ?P) []"
      by (simp add: command_callback_def chat)
    then show ?thesis by blast
  next
    case (Inr events)
    note ev = this
    show ?thesis
    proof (cases "py_get events evt (PList [])")
      case (Inl e)
      then have "trace ?w' = trace w @ map (\<lambda>l. SubGraphDo l ?P) []"
        by (simp add: command_callback_def chat ev)
      then show ?thesis by blast
    next
      case (Inr listeners)
      note li = this
      show ?thesis
      proof (cases "py_iter listeners")
        case (Inl e)
        then have "trace ?w' = trace w @ map (\<lambda>l. SubGraphDo l ?P) []"
          by (simp add: command_callback_def chat ev li)
        then show ?thesis by blast
      next
        case (Inr xs)
        then have "command_callback cmd evt upd args w = fire_listeners ?P xs w"
          by (simp add: command_callback_def chat ev li mt)
        then show ?thesis
          using fire_listeners_events [of ?P xs w] by auto
      qed
    qed
  qed
  then obtain ls where "trace ?w' = trace w @ map (\<lambda>l. SubGraphDo l ?P) ls" ..
  then have "drop (length (trace w)) (trace ?w') = map (\<lambda>l. SubGraphDo l ?P) ls"
    by simp
  moreover have "py_get ?P ''message_text'' PNone = Inr (PStr ?mt)" by simp
  ultimately show "\<forall>e \<in> set (drop (length (trace w)) (trace ?w')).
            \<exists>l p. e = SubGraphDo l p \<and> py_get p ''message_text'' PNone = Inr (PStr ?mt)"
    by auto
next
  show "str_join '' '' [] = []" by simp
  show "str_join '' '' (a # as) = a @ concat (map (\<lambda>x. '' '' @ x) as)"
    by (rule str_join_Cons)
qed


theorem C5_message_text_witness:
  "effective_chat upd0 = Some (Chat 42)
   \<and> (\<exists>l p. hd (trace (snd (command_callback ''start'' ''ev'' upd0 (Some [''a'', ''b'']) world1)))
               = SubGraphDo l p
           \<and> py_get p ''message_text'' PNone = Inr (PStr ''a b''))
   \<and> str_join '' '' [''a'', ''b''] = ''a b''"
proof -
  have chat: "effective_chat upd0 = Some (Chat 42)" by (simp add: upd0_def)
  let ?t = "trace (snd (command_callback ''start'' ''ev'' upd0 (Some [''a'', ''b'']) world1))"
  have len: "length (trace world1) = 0" by (simp add: world1_def world0_def)
  have ne: "?t \<noteq> []"
    by (simp add: command_callback_def Let_def chat world1_def world0_def log_event_def)
  then have "hd ?t \<in> set (drop (length (trace world1)) ?t)"
    using len by simp
  with C5_message_text [OF chat, of world1 "''start''" "''ev''" "Some [''a'', ''b'']" "''a''" "[''b'']"]
  have "\<exists>l p. hd ?t = SubGraphDo l p \<and> py_get p ''message_text'' PNone = Inr (PStr ''a b'')"
    by auto
  then show ?thesis using chat by simp
qed

section \<open>The reply and its arguments\<close>

text \<open>
  C4. With an Application, a payload dict whose \<^verbatim>\<open>update\<close> entry is an Update that has
  an effective chat and an effective message, and any reply text, \<open>execute\<close> returns
  normally having scheduled exactly one coroutine; run by the event loop, in whatever
  world, that coroutine calls \<^verbatim>\<open>send_message\<close> with the chat id of the effective chat,
  the reply text as given, parse mode HTML and the id of the effective message as
  \<^verbatim>\<open>reply_to_message_id\<close>.
\<close>

theorem C4_reply_arguments:
  assumes upd: "map_of kvs ''update'' = Some (PUpdate u)"
    and chat: "effective_chat u = Some c"
    and msg: "effective_message u = Some m"
  shows "TelegramReplyToMessageEvent_execute (PApp r) (PDict kvs) reply_text w =
           (Inr (), w\<lparr>tasks := tasks w @ [send_reply (PApp r) (chat_ident c) reply_text (message_id m)]\<rparr>)
       \<and> trace (snd (run_task (send_reply (PApp r) (chat_ident c) reply_text (message_id m)) w')) =
           trace w' @ [SendMessage \<lparr>sm_chat_id = chat_ident c, sm_text = reply_text,
                                    sm_parse_mode = Some HTML,
                                    sm_reply_to_message_id = Some (message_id m)\<rparr>]"
proof
  from upd have ne: "kvs \<noteq> []" by auto
  show "TelegramReplyToMessageEvent_execute (PApp r) (PDict kvs) reply_text w =
           (Inr (), w\<lparr>tasks := tasks w @ [send_reply (PApp r) (chat_ident c) reply_text (message_id m)]\<rparr>)"
    by (simp add: TelegramReplyToMessageEvent_execute_def Let_def ne upd chat msg create_task_def)
  show "trace (snd (run_task (send_reply (PApp r) (chat_ident c) reply_text (message_id m)) w')) =
           trace w' @ [SendMessage \<lparr>sm_chat_id = chat_ident c, sm_text = reply_text,
                                    sm_parse_mode = Some HTML,
                                    sm_reply_to_message_id = Some (message_id m)\<rparr>]"
    by (simp add: send_message_def log_event_def)
qed

theorem C4_reply_arguments_witness:
  "map_of [(''chat_id'', PInt 42), (''update'', PUpdate upd0)] ''update'' = Some (PUpdate upd0)
   \<and> TelegramReplyToMessageEvent_execute (PApp 0)
        (PDict [(''chat_id'', PInt 42), (''update'', PUpdate upd0)]) (PStr ''<b>hi</b>'') world0 =
        (Inr (), world0\<lparr>tasks := [send_reply (PApp 0) 42 (PStr ''<b>hi</b>'') 99]\<rparr>)
   \<and> trace (snd (run_task (send_reply (PApp 0) 42 (PStr ''<b>hi</b>'') 99) world0)) =
        [SendMessage \<lparr>sm_chat_id = 42, sm_text = PStr ''<b>hi</b>'',
                       sm_parse_mode = Some HTML, sm_reply_to_message_id = Some 99\<rparr>]"
proof -
  have upd: "map_of [(''chat_id'', PInt 42), (''update'', PUpdate upd0)] ''update'' = Some (PUpdate upd0)"
    by simp
  have chat: "effective_chat upd0 = Some (Chat 42)" by (simp add: upd0_def)
  have msg: "effective_message upd0 = Some (Message 99 (Some ''/start a b''))" by (simp add: upd0_def)
  have t0: "tasks world0 = []" "trace world0 = []" by (simp_all add: world0_def)
  from C4_reply_arguments [OF upd chat msg, of 0 "PStr ''<b>hi</b>''" world0 world0]
  show ?thesis using upd by (simp add: t0)
qed

section \<open>The application passes through\<close>

text \<open>
  C6. Whenever TelegramAddEchoHandler or TelegramAddCommandEvent returns normally, the
  value on \<^verbatim>\<open>application_out\<close> is the value received on \<^verbatim>\<open>application\<close>: a reference to
  the same Application object, whose list of handlers has grown by the new handler at
  its end, while every other Application is left as it was.
\<close>

theorem C6_pass_through:
  "(TelegramAddEchoHandler_execute app w = (Inr out, w') \<longrightarrow>
      out = app \<and> (\<exists>r. app = PApp r
        \<and> app_handlers w' r = app_handlers w r @ [MessageHandler TEXT_and_not_COMMAND echo_cb]
        \<and> (\<forall>r'. r' \<noteq> r \<longrightarrow> app_handlers w' r' = app_handlers w r')))
   \<and> (TelegramAddCommandEvent_execute app cnv env w = (Inr out, w') \<longrightarrow>
      out = app \<and> (\<exists>r cn en. app = PApp r \<and> cnv = PStr cn \<and> env = PStr en
        \<and> app_handlers w' r = app_handlers w r @
             [CommandHandler (py_strip cn) (command_cb (py_strip cn) (py_strip en))]
        \<and> (\<forall>r'. r' \<noteq> r \<longrightarrow> app_handlers w' r' = app_handlers w r')))"
proof (intro conjI impI)
  assume a: "TelegramAddEchoHandler_execute app w = (Inr out, w')"
  then obtain r where r: "app = PApp r"
    by (cases app) (simp_all add: TelegramAddEchoHandler_execute_def Let_def)
  from a r show "out = app"
    by (simp add: TelegramAddEchoHandler_execute_def Let_def)
  from a r have "app_handlers w' r = app_handlers w r @ [MessageHandler TEXT_and_not_COMMAND echo_cb]
        \<and> (\<forall>r'. r' \<noteq> r \<longrightarrow> app_handlers w' r' = app_handlers w r')"
    by (auto simp: TelegramAddEchoHandler_execute_def Let_def log_event_def)
  with r show "\<exists>r. app = PApp r
        \<and> app_handlers w' r = app_handlers w r @ [MessageHandler TEXT_and_not_COMMAND echo_cb]
        \<and> (\<forall>r'. r' \<noteq> r \<longrightarrow> app_handlers w' r' = app_handlers w r')"
    by blast
next
  assume a: "TelegramAddCommandEvent_execute app cnv env w = (Inr out, w')"
  then obtain cn where cn: "cnv = PStr cn"
    by (cases cnv) (simp_all add: TelegramAddCommandEvent_execute_def)
  from a cn obtain en where en: "env = PStr en"
    by (cases env) (simp_all add: TelegramAddCommandEvent_execute_def)
  from a cn en obtain r where r: "app = PApp r"
    by (cases app) (auto simp: TelegramAddCommandEvent_execute_def Let_def split: if_splits)
  from a cn en r have ok: "py_strip cn \<noteq> [] \<and> py_strip en \<noteq> []"
    by (auto simp: TelegramAddCommandEvent_execute_def Let_def split: if_splits)
  with a cn en r show "out = app"
    by (auto simp: TelegramAddCommandEvent_execute_def Let_def)
  from a cn en r ok have "app_handlers w' r = app_handlers w r @
             [CommandHandler (py_strip cn) (command_cb (py_strip cn) (py_strip en))]
        \<and> (\<forall>r'. r' \<noteq> r \<longrightarrow> app_handlers w' r' = app_handlers w r')"
    by (auto simp: TelegramAddCommandEvent_execute_def Let_def log_event_def)
  with cn en r show "\<exists>r cn en. app = PApp r \<and> cnv = PStr cn \<and> env = PStr en
        \<and> app_handlers w' r = app_handlers w r @
             [CommandHandler (py_strip cn) (command_cb (py_strip cn) (py_strip en))]
        \<and> (\<forall>r'. r' \<noteq> r \<longrightarrow> app_handlers w' r' = app_handlers w r')"
    by blast
qed

theorem C6_pass_through_witness:
  "fst (TelegramAddEchoHandler_execute (PApp 3) world0) = Inr (PApp 3)
   \<and> app_handlers (snd (TelegramAddEchoHandler_execute (PApp 3) world0)) 3 =
        [MessageHandler TEXT_and_not_COMMAND echo_cb]
   \<and> fst (TelegramAddCommandEvent_execute (PApp 3) (PStr '' start '') (PStr ''ev'') world0) = Inr (PApp 3)
   \<and> app_handlers (snd (TelegramAddCommandEvent_execute (PApp 3) (PStr '' start '') (PStr ''ev'') world0)) 3 =
        [CommandHandler ''start'' (command_cb ''start'' ''ev'')]"
proof -
  have s: "py_strip '' start '' = ''start''" "py_strip ''ev'' = ''ev''"
    by (simp_all add: py_strip_def is_space_def)
  have h0: "app_handlers world0 3 = []" by (simp add: world0_def)
  have e: "fst (TelegramAddEchoHandler_execute (PApp 3) world0) = Inr (PApp 3)"
    by (simp add: TelegramAddEchoHandler_execute_def Let_def)
  then have e': "TelegramAddEchoHandler_execute (PApp 3) world0 =
      (Inr (PApp 3), snd (TelegramAddEchoHandler_execute (PApp 3) world0))"
    by (metis prod.collapse)
  have k: "fst (TelegramAddCommandEvent_execute (PApp 3) (PStr '' start '') (PStr ''ev'') world0) = Inr (PApp 3)"
    by (simp add: TelegramAddCommandEvent_execute_def Let_def s)
  then have k': "TelegramAddCommandEvent_execute (PApp 3) (PStr '' start '') (PStr ''ev'') world0 =
      (Inr (PApp 3), snd (TelegramAddCommandEvent_execute (PApp 3) (PStr '' start '') (PStr ''ev'') world0))"
    by (metis prod.collapse)
  from C6_pass_through [of "PApp 3" world0 "PApp 3"
        "snd (TelegramAddEchoHandler_execute (PApp 3) world0)" "PStr '' start ''" "PStr ''ev''"] e'
  have 1: "app_handlers (snd (TelegramAddEchoHandler_execute (PApp 3) world0)) 3 =
        [MessageHandler TEXT_and_not_COMMAND echo_cb]"
    by (simp add: h0)
  from C6_pass_through [of "PApp 3" world0 "PApp 3"
        "snd (TelegramAddCommandEvent_execute (PApp 3) (PStr '' start '') (PStr ''ev'') world0)"
        "PStr '' start ''" "PStr ''ev''"] k'
  have 2: "app_handlers (snd (TelegramAddCommandEvent_execute (PApp 3) (PStr '' start '') (PStr ''ev'') world0)) 3 =
        [CommandHandler ''start'' (command_cb ''start'' ''ev'')]"
    by (simp add: h0 s)
  from e k 1 2 show ?thesis by simp
qed

section \<open>The reply is scheduled, not awaited\<close>

lemma reply_world_cases:
  "snd (TelegramReplyToMessageEvent_execute app payload rtext w) = w
   \<or> (\<exists>line. snd (TelegramReplyToMessageEvent_execute app payload rtext w) = print line w)
   \<or> (\<exists>t. snd (TelegramReplyToMessageEvent_execute app payload rtext w) = create_task t w)"
  by (auto simp: TelegramReplyToMessageEvent_execute_def Let_def
           split: sum.splits pyval.splits option.splits)

text \<open>
  C7. What \<open>execute\<close> of TelegramReplyToMessageEvent returns, and the world it leaves,
  are the same whatever the transport does with a send; \<open>execute\<close> makes no call into
  the library, so no send happens in it. With an Application and a payload whose Update
  has an effective chat and message, \<open>execute\<close> returns normally with the coroutine
  appended to the tasks of the event loop, even where every send fails; the failure
  appears when the loop runs the coroutine.
\<close>

theorem C7_fire_and_forget:
  "TelegramReplyToMessageEvent_execute app payload rtext (w\<lparr>send_fails := f\<rparr>) =
     (fst (TelegramReplyToMessageEvent_execute app payload rtext w),
      (snd (TelegramReplyToMessageEvent_execute app payload rtext w))\<lparr>send_fails := f\<rparr>)
   \<and> trace (snd (TelegramReplyToMessageEvent_execute app payload rtext w)) = trace w
   \<and> (map_of kvs ''update'' = Some (PUpdate u) \<and> effective_chat u = Some c
        \<and> effective_message u = Some m \<and> send_fails w = (\<lambda>a. True) \<longrightarrow>
        fst (TelegramReplyToMessageEvent_execute (PApp r) (PDict kvs) rtext w) = Inr ()
      \<and> tasks (snd (TelegramReplyToMessageEvent_execute (PApp r) (PDict kvs) rtext w)) =
          tasks w @ [send_reply (PApp r) (chat_ident c) rtext (message_id m)]
      \<and> fst (run_task (send_reply (PApp r) (chat_ident c) rtext (message_id m))
                (snd (TelegramReplyToMessageEvent_execute (PApp r) (PDict kvs) rtext w)))
          = Inl TelegramError)"
proof (intro conjI impI)
  show "TelegramReplyToMessageEvent_execute app payload rtext (w\<lparr>send_fails := f\<rparr>) =
     (fst (TelegramReplyToMessageEvent_execute app payload rtext w),
      (snd (TelegramReplyToMessageEvent_execute app payload rtext w))\<lparr>send_fails := f\<rparr>)"
    by (auto simp: TelegramReplyToMessageEvent_execute_def Let_def print_def create_task_def
             split: sum.splits pyval.splits option.splits)
next
  show "trace (snd (TelegramReplyToMessageEvent_execute app payload rtext w)) = trace w"
    using reply_world_cases [of app payload rtext w]
    by (auto simp: print_def create_task_def)
next
  assume a: "map_of kvs ''update'' = Some (PUpdate u) \<and> effective_chat u = Some c
        \<and> effective_message u = Some m \<and> send_fails w = (\<lambda>a. True)"
  then have ne: "kvs \<noteq> []" by auto
  have ex: "TelegramReplyToMessageEvent_execute (PApp r) (PDict kvs) rtext w =
      (Inr (), create_task (send_reply (PApp r) (chat_ident c) rtext (message_id m)) w)"
    using a ne by (simp add: TelegramReplyToMessageEvent_execute_def Let_def)
  show "fst (TelegramReplyToMessageEvent_execute (PApp r) (PDict kvs) rtext w) = Inr ()"
    by (simp add: ex)
  show "tasks (snd (TelegramReplyToMessageEvent_execute (PApp r) (PDict kvs) rtext w)) =
          tasks w @ [send_reply (PApp r) (chat_ident c) rtext (message_id m)]"
    by (simp add: ex create_task_def)
  show "fst (run_task (send_reply (PApp r) (chat_ident c) rtext (message_id m))
                (snd (TelegramReplyToMessageEvent_execute (PApp r) (PDict kvs) rtext w)))
          = Inl TelegramError"
    using a by (simp add: ex create_task_def send_message_def)
qed

theorem C7_fire_and_forget_witness:
  "fst (TelegramReplyToMessageEvent_execute (PApp 0) (PDict [(''update'', PUpdate upd0)])
          (PStr ''hi'') world_down) = Inr ()
   \<and> tasks (snd (TelegramReplyToMessageEvent_execute (PApp 0) (PDict [(''update'', PUpdate upd0)])
          (PStr ''hi'') world_down)) = [send_reply (PApp 0) 42 (PStr ''hi'') 99]
   \<and> trace (snd (TelegramReplyToMessageEvent_execute (PApp 0) (PDict [(''update'', PUpdate upd0)])
          (PStr ''hi'') world_down)) = []
   \<and> fst (run_task (send_reply (PApp 0) 42 (PStr ''hi'') 99)
            (snd (TelegramReplyToMessageEvent_execute (PApp 0) (PDict [(''update'', PUpdate upd0)])
          (PStr ''hi'') world_down))) = Inl TelegramError"
proof -
  have h: "map_of [(''update'', PUpdate upd0)] ''update'' = Some (PUpdate upd0)
        \<and> effective_chat upd0 = Some (Chat 42)
        \<and> effective_message upd0 = Some (Message 99 (Some ''/start a b''))
        \<and> send_fails world_down = (\<lambda>a. True)"
    by (simp add: upd0_def world_down_def)
  have t0: "tasks world_down = []" "trace world_down = []"
    by (simp_all add: world_down_def world0_def)
  from C7_fire_and_forget [where app = "PApp 0" and payload = "PDict [(''update'', PUpdate upd0)]"
         and rtext = "PStr ''hi''" and w = world_down and f = "\<lambda>a. True"
         and kvs = "[(''update'', PUpdate upd0)]" and u = upd0 and c = "Chat 42"
         and m = "Message 99 (Some ''/start a b'')" and r = 0] h
  show ?thesis by (simp add: t0)
qed

section \<open>The echo callback\<close>

text \<open>
  C8. On an Update whose message has a non-empty text, and which has an effective chat,
  \<open>echo\<close> makes exactly one call: \<^verbatim>\<open>send_message\<close> to that chat with that text and
  nothing else. On an Update with no message, or whose message has no text or an empty
  one, it returns normally and leaves the world as it was. So on an Update with an
  effective chat a call is made if and only if there is a message with non-empty text.
  Which updates reach the callback is decided by the library's filter.
\<close>

theorem C8_echo:
  "(message upd = Some m \<and> msg_text m = Some t \<and> t \<noteq> [] \<and> effective_chat upd = Some c \<longrightarrow>
      trace (snd (echo upd w)) =
        trace w @ [SendMessage \<lparr>sm_chat_id = chat_ident c, sm_text = PStr t,
                                 sm_parse_mode = None, sm_reply_to_message_id = None\<rparr>])
   \<and> (message upd = None \<or> (\<exists>m'. message upd = Some m' \<and> (msg_text m' = None \<or> msg_text m' = Some []))
        \<longrightarrow> echo upd w = (Inr (), w))
   \<and> (effective_chat upd = Some c \<longrightarrow>
        (trace (snd (echo upd w)) \<noteq> trace w)
          = (\<exists>m' t'. message upd = Some m' \<and> msg_text m' = Some t' \<and> t' \<noteq> []))"
proof (intro conjI impI)
  assume "message upd = Some m \<and> msg_text m = Some t \<and> t \<noteq> [] \<and> effective_chat upd = Some c"
  then show "trace (snd (echo upd w)) =
        trace w @ [SendMessage \<lparr>sm_chat_id = chat_ident c, sm_text = PStr t,
                                 sm_parse_mode = None, sm_reply_to_message_id = None\<rparr>]"
    by (simp add: echo_def send_message_def log_event_def)
next
  assume "message upd = None \<or> (\<exists>m'. message upd = Some m' \<and> (msg_text m' = None \<or> msg_text m' = Some []))"
  then show "echo upd w = (Inr (), w)"
    by (auto simp: echo_def)
next
  assume "effective_chat upd = Some c"
  then show "(trace (snd (echo upd w)) \<noteq> trace w)
          = (\<exists>m' t'. message upd = Some m' \<and> msg_text m' = Some t' \<and> t' \<noteq> [])"
    by (auto simp: echo_def send_message_def log_event_def split: option.splits)
qed

theorem C8_echo_witness:
  "trace (snd (echo upd_text world0)) =
     [SendMessage \<lparr>sm_chat_id = 42, sm_text = PStr ''hello'',
                    sm_parse_mode = None, sm_reply_to_message_id = None\<rparr>]
   \<and> echo upd_photo world0 = (Inr (), world0)"
proof -
  have a: "message upd_text = Some (Message 5 (Some ''hello'')) \<and> msg_text (Message 5 (Some ''hello'')) = Some ''hello''
           \<and> ''hello'' \<noteq> [] \<and> effective_chat upd_text = Some (Chat 42)"
    by (simp add: upd_text_def)
  have b: "message upd_photo = Some (Message 6 None) \<and> msg_text (Message 6 None) = None"
    by (simp add: upd_photo_def)
  have t0: "trace world0 = []" by (simp add: world0_def)
  from C8_echo [of upd_text "Message 5 (Some ''hello'')" "''hello''" "Chat 42" world0] a
  have 1: "trace (snd (echo upd_text world0)) =
     [SendMessage \<lparr>sm_chat_id = 42, sm_text = PStr ''hello'',
                    sm_parse_mode = None, sm_reply_to_message_id = None\<rparr>]"
    by (simp add: t0)
  from C8_echo [of upd_photo "Message 6 None" "[]" "Chat 42" world0] b
  have 2: "echo upd_photo world0 = (Inr (), world0)"
    by simp
  from 1 2 show ?thesis by simp
qed

section \<open>Unpacking a payload\<close>

text \<open>
  C9, as stated, at a dict whose \<^verbatim>\<open>update\<close> entry is a true value that is not an Update
  (here the Update as a decoded dict): \<open>execute\<close> raises AttributeError at
  \<^verbatim>\<open>update.effective_user\<close>.
\<close>

theorem C9_parse_counterexample:
  "fst (TelegramParsePayload_execute
          (PDict [(''chat_id'', PInt 42), (''update'', PDict [(''update_id'', PInt 1)])]) world0)
     = Inl AttributeError"
  by (simp add: TelegramParsePayload_execute_def derive_first_name_def)

text \<open>
  C9, amended. For a payload that is None or otherwise false, and for a dict whose
  \<^verbatim>\<open>update\<close> entry is missing, false or an Update, \<open>execute\<close> returns normally and
  leaves the world as it was. The five ports hold the dict's value under their key, or
  None where the key (or the payload) is missing; \<^verbatim>\<open>first_name\<close> holds the first name
  of the Update's effective user when there is one with a first name, and the empty str
  otherwise.
\<close>

theorem C9_parse_total:
  "(\<not> truthy payload \<longrightarrow>
      TelegramParsePayload_execute payload w =
        (Inr \<lparr>chat_id = PNone, user_id = PNone, message_text = PNone, update_obj = PNone,
               command_name = PNone, first_name = PStr []\<rparr>, w))
   \<and> (map_of kvs ''update'' = None \<or> (\<exists>v. map_of kvs ''update'' = Some v \<and> \<not> truthy v)
        \<or> (\<exists>u. map_of kvs ''update'' = Some (PUpdate u)) \<longrightarrow>
      TelegramParsePayload_execute (PDict kvs) w =
        (Inr \<lparr>chat_id = (case map_of kvs ''chat_id'' of None \<Rightarrow> PNone | Some v \<Rightarrow> v),
               user_id = (case map_of kvs ''user_id'' of None \<Rightarrow> PNone | Some v \<Rightarrow> v),
               message_text = (case map_of kvs ''message_text'' of None \<Rightarrow> PNone | Some v \<Rightarrow> v),
               update_obj = (case map_of kvs ''update'' of None \<Rightarrow> PNone | Some v \<Rightarrow> v),
               command_name = (case map_of kvs ''command_name'' of None \<Rightarrow> PNone | Some v \<Rightarrow> v),
               first_name = PStr (case map_of kvs ''update'' of
                                    Some (PUpdate u) \<Rightarrow>
                                      (case effective_user u of
                                         None \<Rightarrow> []
                                       | Some usr \<Rightarrow>
                                           (case user_first_name usr of None \<Rightarrow> [] | Some n \<Rightarrow> n))
                                  | _ \<Rightarrow> [])\<rparr>, w))"
proof (intro conjI impI)
  assume "\<not> truthy payload"
  then show "TelegramParsePayload_execute payload w =
        (Inr \<lparr>chat_id = PNone, user_id = PNone, message_text = PNone, update_obj = PNone,
               command_name = PNone, first_name = PStr []\<rparr>, w)"
    by (simp add: TelegramParsePayload_execute_def derive_first_name_def)
next
  let ?g = "\<lambda>k. case map_of kvs k of None \<Rightarrow> PNone | Some v \<Rightarrow> v"
  let ?fn = "case map_of kvs ''update'' of
                                    Some (PUpdate u) \<Rightarrow>
                                      (case effective_user u of
                                         None \<Rightarrow> []
                                       | Some usr \<Rightarrow>
                                           (case user_first_name usr of None \<Rightarrow> [] | Some n \<Rightarrow> n))
                                  | _ \<Rightarrow> []"
  assume a: "map_of kvs ''update'' = None \<or> (\<exists>v. map_of kvs ''update'' = Some v \<and> \<not> truthy v)
        \<or> (\<exists>u. map_of kvs ''update'' = Some (PUpdate u))"
  have pl: "(if truthy (PDict kvs) then PDict kvs else PDict []) = PDict kvs"
    by simp
  have fn: "derive_first_name (?g ''update'') = Inr ?fn"
    using a
  proof (elim disjE exE conjE)
    assume "map_of kvs ''update'' = None"
    then show ?thesis by (simp add: derive_first_name_def)
  next
    fix v assume "map_of kvs ''update'' = Some v" "\<not> truthy v"
    then show ?thesis by (cases v) (simp_all add: derive_first_name_def)
  next
    fix u assume "map_of kvs ''update'' = Some (PUpdate u)"
    then show ?thesis
      by (simp add: derive_first_name_def split: option.splits)
  qed
  show "TelegramParsePayload_execute (PDict kvs) w =
        (Inr \<lparr>chat_id = ?g ''chat_id'', user_id = ?g ''user_id'',
               message_text = ?g ''message_text'', update_obj = ?g ''update'',
               command_name = ?g ''command_name'', first_name = PStr ?fn\<rparr>, w)"
    unfolding TelegramParsePayload_execute_def Let_def pl
    by (simp add: fn)
qed

theorem C9_parse_total_witness:
  "TelegramParsePayload_execute PNone world0 =
        (Inr \<lparr>chat_id = PNone, user_id = PNone, message_text = PNone, update_obj = PNone,
               command_name = PNone, first_name = PStr []\<rparr>, world0)
   \<and> TelegramParsePayload_execute (PDict [(''chat_id'', PInt 42), (''update'', PUpdate upd0)]) world0 =
        (Inr \<lparr>chat_id = PInt 42, user_id = PNone, message_text = PNone,
               update_obj = PUpdate upd0, command_name = PNone, first_name = PStr ''Ann''\<rparr>, world0)"
proof -
  have u: "effective_user upd0 = Some (User 7 (Some ''Ann''))" by (simp add: upd0_def)
  from C9_parse_total [where payload = PNone and w = world0
         and kvs = "[(''chat_id'', PInt 42), (''update'', PUpdate upd0)]"]
  show ?thesis by (simp add: u)
qed

end
